theory Spec2Isabelle
  imports Main "HOL-Library.AList" "HOL-Library.Multiset"
begin

section \<open>JavaScript values\<close>

text \<open>
  The adapter works on schema-less documents, queries and update deltas. They are
  modelled as a closed value type. An object is an association list in insertion
  order (property order matters to the code: it reads \<^verbatim>\<open>Object.keys(x)[0]\<close>);
  writing a property that exists replaces its value in place, writing a new one
  appends it, which is what \<^const>\<open>AList.update\<close> does. Numbers are integers:
  the claims only use identifiers, timestamps, positions and sizes.
\<close>

datatype jv =
    JUndef
  | JNull
  | JBool bool
  | JNum int
  | JStr string
  | JArr "jv list"
  | JObj "(string \<times> jv) list"

type_synonym obj = "(string \<times> jv) list"

text \<open>Errors of the model: a thrown \<^verbatim>\<open>TypeError\<close>, and a value whose shape lies
  outside the TypeScript type of the parameter, which the model does not follow.\<close>

datatype error = TypeError | Unsupported

definition js_get :: "obj \<Rightarrow> string \<Rightarrow> jv" where
  "js_get ob k = (case map_of ob k of None \<Rightarrow> JUndef | Some v \<Rightarrow> v)"

definition spread :: "obj \<Rightarrow> obj \<Rightarrow> obj" where
  "spread target source = foldl (\<lambda>acc kv. AList.update (fst kv) (snd kv) acc) target source"

text \<open>\<^verbatim>\<open>{ ...source }\<close>: a fresh object with the properties of the source.\<close>

definition copyObj :: "obj \<Rightarrow> obj" where
  "copyObj source = spread [] source"

definition startsWith :: "string \<Rightarrow> string \<Rightarrow> bool" where
  "startsWith s p = (take (length p) s = p)"

definition endsWith :: "string \<Rightarrow> string \<Rightarrow> bool" where
  "endsWith s p = (length p \<le> length s \<and> drop (length s - length p) s = p)"

text \<open>\<^verbatim>\<open>String.prototype.split\<close> on a one-character separator and
  \<^verbatim>\<open>Array.prototype.join\<close>. The separators used are ASCII, so splitting the
  byte string and splitting the UTF-16 string cut at the same places.\<close>

fun split_chr :: "char \<Rightarrow> string \<Rightarrow> string list" where
  "split_chr c [] = [[]]"
| "split_chr c (x # xs) =
     (if x = c then [] # split_chr c xs
      else (case split_chr c xs of
              [] \<Rightarrow> [[x]]
            | y # ys \<Rightarrow> (x # y) # ys))"

fun join_str :: "string \<Rightarrow> string list \<Rightarrow> string" where
  "join_str sep [] = []"
| "join_str sep [x] = x"
| "join_str sep (x # y # ys) = x @ sep @ join_str sep (y # ys)"

section \<open>The hierarchy and the constants of the core package\<close>

text \<open>
  The class \<^verbatim>\<open>Hierarchy\<close>, the identifiers \<^verbatim>\<open>core.class.Doc\<close>,
  \<^verbatim>\<open>core.class.TypeDate\<close>, \<^verbatim>\<open>DOMAIN_MODEL\<close> and the helpers
  \<^verbatim>\<open>escapeLikeForRegexp\<close>, \<^verbatim>\<open>isOperator\<close>,
  \<^verbatim>\<open>TxProcessor.createDoc2Doc\<close> are imported by the adapter from the core
  package. They are parameters of the model: every theorem below holds for each
  hierarchy and each implementation of the helpers.
\<close>

record attribute =
  attributeOf :: string
  typeClass :: string

record hierarchy =
  getBaseClass :: "string \<Rightarrow> string"
  getDescendants :: "string \<Rightarrow> string list"
  isMixin :: "string \<Rightarrow> bool"
  findAttribute :: "string \<Rightarrow> string \<Rightarrow> attribute option"
  getDomain :: "string \<Rightarrow> string"

text \<open>The fields every create, update, remove and mixin transaction carries
  (\<^verbatim>\<open>TxCUD\<close>).\<close>

record txCUD =
  objectId :: string
  objectClass :: string
  objectSpace :: string
  modifiedBy :: string
  modifiedOn :: int

record core =
  class_Doc :: string
  class_TypeDate :: string
  DOMAIN_MODEL :: string
  escapeLikeForRegexp :: "string \<Rightarrow> string"
  isOperator :: "obj \<Rightarrow> bool"
  createDoc2Doc :: "txCUD \<Rightarrow> obj \<Rightarrow> obj"

section \<open>Query translator\<close>

text \<open>\<^verbatim>\<open>translateLikeQuery\<close>: split at the wildcard, escape each piece, join the
  pieces with \<^verbatim>\<open>.*\<close>, anchor. The source calls \<^verbatim>\<open>pattern.split\<close>, which
  throws when the value under \<^verbatim>\<open>$like\<close> is not a string.\<close>

definition translateLikeQuery :: "core \<Rightarrow> string \<Rightarrow> jv" where
  "translateLikeQuery c pattern =
     JObj [(''$regex'',
            JStr (''^'' @ join_str ''.*'' (map (escapeLikeForRegexp c) (split_chr (CHR ''%'') pattern)) @ ''$'')),
           (''$options'', JStr ''i'')]"

text \<open>\<^verbatim>\<open>checkMixinKey\<close>: a key without a dot that is an attribute of a mixin gets
  the mixin's identifier as prefix. An exception of \<^verbatim>\<open>findAttribute\<close> is caught
  and leaves the key as it is, like the answer \<^verbatim>\<open>undefined\<close>.\<close>

definition checkMixinKey :: "hierarchy \<Rightarrow> string \<Rightarrow> string \<Rightarrow> string" where
  "checkMixinKey h key clazz =
     (if CHR ''.'' \<notin> set key then
        (case findAttribute h clazz key of
           Some attr \<Rightarrow> if isMixin h (attributeOf attr) then attributeOf attr @ ''.'' @ key else key
         | None \<Rightarrow> key)
      else key)"

text \<open>\<^verbatim>\<open>translateKey\<close>. The loop over the index \<^verbatim>\<open>i\<close> is a recursion over the
  segments still to read; \<open>first\<close> is \<^verbatim>\<open>i = 0\<close>. After \<^verbatim>\<open>$lookup\<close> the next
  segment is consumed too; when there is none JavaScript appends the text
  \<^verbatim>\<open>undefined\<close>.\<close>

fun translateKeyLoop :: "hierarchy \<Rightarrow> string \<Rightarrow> bool \<Rightarrow> string list \<Rightarrow> string \<Rightarrow> string" where
  "translateKeyLoop h clazz first [] tKey = tKey"
| "translateKeyLoop h clazz first (element # rest) tKey =
     (if element = ''$lookup'' then
        (case rest of
           [] \<Rightarrow> checkMixinKey h (tKey @ ''undefined'' @ ''_lookup'') clazz
         | nxt # rest' \<Rightarrow>
             translateKeyLoop h clazz False rest' (checkMixinKey h (tKey @ nxt @ ''_lookup'') clazz))
      else
        (let t1 = (if \<not> endsWith tKey ''.'' \<and> \<not> first then tKey @ ''.'' else tKey);
             t2 = t1 @ element;
             t3 = (if rest \<noteq> [] then t2 @ ''.'' else t2)
         in translateKeyLoop h clazz False rest (checkMixinKey h t3 clazz)))"

definition translateKey :: "hierarchy \<Rightarrow> string \<Rightarrow> string \<Rightarrow> string" where
  "translateKey h key clazz =
     translateKeyLoop h clazz True (filter (\<lambda>p. p \<noteq> []) (split_chr (CHR ''.'') key)) []"

text \<open>The first loop of \<^verbatim>\<open>translateQuery\<close>: each entry of the predicate is copied
  under its translated key; an object whose first key is \<^verbatim>\<open>$like\<close> is replaced
  by the pattern match.\<close>

fun translateEntries :: "core \<Rightarrow> hierarchy \<Rightarrow> string \<Rightarrow> obj \<Rightarrow> obj \<Rightarrow> error + obj" where
  "translateEntries c h clazz [] translated = Inr translated"
| "translateEntries c h clazz ((key, value) # query) translated =
     (let tkey = translateKey h key clazz in
      case value of
        JObj ((k0, v0) # others) \<Rightarrow>
          if k0 = ''$like'' then
            (case v0 of
               JStr pattern \<Rightarrow>
                 translateEntries c h clazz query (AList.update tkey (translateLikeQuery c pattern) translated)
             | _ \<Rightarrow> Inl TypeError)
          else translateEntries c h clazz query (AList.update tkey value translated)
      | _ \<Rightarrow> translateEntries c h clazz query (AList.update tkey value translated))"

text \<open>The class constraint. \<open>inClasses\<close> is \<^verbatim>\<open>$in.filter((c) => classesIds.has(c))\<close>:
  only strings can be members of the set of class identifiers.\<close>

fun inClasses :: "string list \<Rightarrow> jv list \<Rightarrow> string list" where
  "inClasses classes [] = []"
| "inClasses classes (JStr s # cs) =
     (if s \<in> set classes then s # inClasses classes cs else inClasses classes cs)"
| "inClasses classes (v # cs) = inClasses classes cs"

definition noMixins :: "hierarchy \<Rightarrow> string list \<Rightarrow> jv" where
  "noMixins h classes = JObj [(''$in'', JArr (map JStr (filter (\<lambda>it. \<not> isMixin h it) classes)))]"

definition classObject :: "hierarchy \<Rightarrow> string list \<Rightarrow> obj \<Rightarrow> jv" where
  "classObject h classes cq =
     (let descendants = (case js_get cq ''$in'' of
                           JArr cs \<Rightarrow> inClasses classes cs
                         | _ \<Rightarrow> classes);
          descendants = (case js_get cq ''$nin'' of
                           JArr ex \<Rightarrow> filter (\<lambda>c. JStr c \<notin> set ex) descendants
                         | _ \<Rightarrow> descendants)
      in noMixins h descendants)"

definition translateClass :: "core \<Rightarrow> hierarchy \<Rightarrow> string \<Rightarrow> obj \<Rightarrow> obj" where
  "translateClass c h clazz translated =
     (let baseClass = getBaseClass h clazz in
      if baseClass \<noteq> class_Doc c then
        (let classes = getDescendants h baseClass;
             t1 = (case js_get translated ''_class'' of
                     JUndef \<Rightarrow> AList.update ''_class'' (JObj [(''$in'', JArr (map JStr classes))]) translated
                   | JStr s \<Rightarrow>
                       if s \<notin> set classes
                       then AList.update ''_class'' (noMixins h classes) translated
                       else translated
                   | JObj cq \<Rightarrow> AList.update ''_class'' (classObject h classes cq) translated
                   | JArr xs \<Rightarrow> AList.update ''_class'' (classObject h classes []) translated
                   | _ \<Rightarrow> translated)
         in if baseClass \<noteq> clazz
            then AList.update clazz (JObj [(''$exists'', JBool True)]) t1
            else t1)
      else AList.delete ''_class'' translated)"

text \<open>The last step: a one-element \<^verbatim>\<open>$in\<close> without \<^verbatim>\<open>$nin\<close> becomes the
  element itself.\<close>

definition simplifyClass :: "obj \<Rightarrow> obj" where
  "simplifyClass translated =
     (case js_get translated ''_class'' of
        JObj cq \<Rightarrow>
          (case js_get cq ''$in'' of
             JArr [x] \<Rightarrow>
               if js_get cq ''$nin'' = JUndef then AList.update ''_class'' x translated
               else translated
           | _ \<Rightarrow> translated)
      | _ \<Rightarrow> translated)"

definition translateQuery :: "core \<Rightarrow> hierarchy \<Rightarrow> string \<Rightarrow> obj \<Rightarrow> error + obj" where
  "translateQuery c h clazz query =
     (case translateEntries c h clazz query [] of
        Inl e \<Rightarrow> Inl e
      | Inr translated \<Rightarrow> Inr (simplifyClass (translateClass c h clazz translated)))"

section \<open>Lookup resolver: the fill phase\<close>

text \<open>\<^verbatim>\<open>fillLookup\<close> reads the joined rows from \<^verbatim>\<open>object[fullKey]\<close> and writes
  into \<^verbatim>\<open>targetObject.$lookup\<close>; the model returns the new \<^verbatim>\<open>targetObject\<close>.
  \<open>modelFindAll\<close> stands for \<^verbatim>\<open>modelDb.findAll\<close>. Assigning a property of
  \<^verbatim>\<open>null\<close> or of a primitive throws; an array as \<^verbatim>\<open>$lookup\<close> is not
  followed by the model.\<close>

definition setLookup :: "obj \<Rightarrow> string \<Rightarrow> jv \<Rightarrow> error + obj" where
  "setLookup targetObject key v =
     (case js_get targetObject ''$lookup'' of
        JObj l \<Rightarrow> Inr (AList.update ''$lookup'' (JObj (AList.update key v l)) targetObject)
      | JArr xs \<Rightarrow> Inl Unsupported
      | _ \<Rightarrow> Inl TypeError)"

definition fillLookup ::
  "core \<Rightarrow> hierarchy \<Rightarrow> (string \<Rightarrow> obj \<Rightarrow> jv list) \<Rightarrow> string \<Rightarrow> obj \<Rightarrow> string \<Rightarrow> string \<Rightarrow> obj
     \<Rightarrow> error + obj" where
  "fillLookup c h modelFindAll cl object key fullKey targetObject =
     (let target1 = (if js_get targetObject ''$lookup'' = JUndef
                     then AList.update ''$lookup'' (JObj []) targetObject
                     else targetObject);
          domain = getDomain h cl
      in if domain \<noteq> DOMAIN_MODEL c then
           (case js_get object fullKey of
              JArr arr \<Rightarrow>
                if length arr = 1 then setLookup target1 key (arr ! 0)
                else if length arr > 1 then setLookup target1 key (JArr arr)
                else Inr target1
            | _ \<Rightarrow> Inr target1)
         else
           setLookup target1 key
             (case modelFindAll cl [(''_id'', js_get target1 key)] of
                [] \<Rightarrow> JUndef
              | x # xs \<Rightarrow> x))"

section \<open>Sort planner: date attributes\<close>

text \<open>\<^verbatim>\<open>isDate\<close> and \<^verbatim>\<open>fillDateSort\<close>. \<open>sortOption\<close> is \<^verbatim>\<open>options.sort\<close>,
  which may be undefined; \<open>ascending\<close> is the value of \<^verbatim>\<open>SortingOrder.Ascending\<close>.
  The function returns the pipeline, the sort document and \<^verbatim>\<open>options.sort\<close>
  as it leaves them.\<close>

definition isDate :: "core \<Rightarrow> hierarchy \<Rightarrow> string \<Rightarrow> string \<Rightarrow> bool" where
  "isDate c h cl key =
     (case findAttribute h cl key of
        Some attr \<Rightarrow> typeClass attr = class_TypeDate c
      | None \<Rightarrow> False)"


subsection \<open>What the backend does with the emitted stages\<close>






section \<open>Transaction bulk compiler\<close>

datatype tx =
    TxCreateDoc txCUD obj
  | TxCollectionCUD txCUD string tx
  | TxUpdateDoc txCUD obj bool
  | TxRemoveDoc txCUD
  | TxMixin txCUD string obj
  | TxApplyIf
  | TxOther string

text \<open>\<^verbatim>\<open>TxCreateDoc\<close> carries the attributes, \<^verbatim>\<open>TxCollectionCUD\<close> the name of
  the collection and the wrapped transaction, \<^verbatim>\<open>TxUpdateDoc\<close> the operations and
  \<^verbatim>\<open>retrieve === true\<close>, \<^verbatim>\<open>TxMixin\<close> the mixin and the attributes.
  \<^verbatim>\<open>TxOther\<close> is any other class of transaction.\<close>

datatype bulkOp = UpdateOne obj obj | DeleteOne obj

text \<open>A raw operation is the closure pushed by \<^verbatim>\<open>txUpdateDoc\<close>: one
  \<^verbatim>\<open>findOneAndUpdate\<close> on a domain, with its filter and its update.\<close>

datatype rawOp = FindOneAndUpdate string obj obj

record OperationBulk =
  add :: "obj list"
  update :: "(string \<times> obj) list"
  bulkOperations :: "bulkOp list"
  findUpdate :: "string list"
  raw :: "rawOp list"

definition emptyBulk :: OperationBulk where
  "emptyBulk = \<lparr> add = [], update = [], bulkOperations = [], findUpdate = [], raw = [] \<rparr>"

definition translateDoc :: "obj \<Rightarrow> obj" where
  "translateDoc doc = AList.update ''%hash%'' JNull (copyObj doc)"

definition modifyOp :: "txCUD \<Rightarrow> obj" where
  "modifyOp t = [(''modifiedBy'', JStr (modifiedBy t)), (''modifiedOn'', JNum (modifiedOn t))]"

definition idFilter :: "txCUD \<Rightarrow> obj" where
  "idFilter t = [(''_id'', JStr (objectId t))]"

text \<open>\<^verbatim>\<open>bulk.update.get(id)\<close>, a fresh object when there is none, then one
  assignment per entry.\<close>

definition mergeUpdate :: "string \<Rightarrow> obj \<Rightarrow> (string \<times> obj) list \<Rightarrow> (string \<times> obj) list" where
  "mergeUpdate oid entries m =
     AList.update oid (spread (case map_of m oid of None \<Rightarrow> [] | Some upd \<Rightarrow> upd) entries) m"

definition setAdd :: "string \<Rightarrow> string list \<Rightarrow> string list" where
  "setAdd x xs = (if x \<in> set xs then xs else xs @ [x])"

definition txCreateDoc :: "core \<Rightarrow> OperationBulk \<Rightarrow> txCUD \<Rightarrow> obj \<Rightarrow> OperationBulk" where
  "txCreateDoc c bulk t attrs = bulk\<lparr> add := add bulk @ [translateDoc (createDoc2Doc c t attrs)] \<rparr>"

definition txRemoveDoc :: "OperationBulk \<Rightarrow> txCUD \<Rightarrow> OperationBulk" where
  "txRemoveDoc bulk t = bulk\<lparr> bulkOperations := bulkOperations bulk @ [DeleteOne (idFilter t)] \<rparr>"

text \<open>Reading \<^verbatim>\<open>desc\<close> out of \<^verbatim>\<open>{ field: desc }\<close>: \<^verbatim>\<open>Object.keys\<close> of
  \<^verbatim>\<open>null\<close> or \<^verbatim>\<open>undefined\<close> throws, and so does reading a property of an
  undefined \<^verbatim>\<open>desc\<close>.\<close>

definition descOf :: "jv \<Rightarrow> error + obj" where
  "descOf desc =
     (case desc of
        JObj d \<Rightarrow> Inr d
      | JUndef \<Rightarrow> Inl TypeError
      | JNull \<Rightarrow> Inl TypeError
      | _ \<Rightarrow> Inl Unsupported)"

definition firstEntry :: "jv \<Rightarrow> error + string \<times> obj" where
  "firstEntry keyval =
     (case keyval of
        JObj [] \<Rightarrow> Inl TypeError
      | JObj ((arr, desc) # others) \<Rightarrow>
          (case descOf desc of Inl e \<Rightarrow> Inl e | Inr d \<Rightarrow> Inr (arr, d))
      | JUndef \<Rightarrow> Inl TypeError
      | JNull \<Rightarrow> Inl TypeError
      | _ \<Rightarrow> Inl Unsupported)"

definition hashNull :: "string \<times> jv" where
  "hashNull = (''%hash%'', JNull)"

definition pushBulk :: "OperationBulk \<Rightarrow> bulkOp list \<Rightarrow> OperationBulk" where
  "pushBulk bulk ops = bulk\<lparr> bulkOperations := bulkOperations bulk @ ops \<rparr>"

definition txUpdateDoc ::
  "core \<Rightarrow> hierarchy \<Rightarrow> OperationBulk \<Rightarrow> txCUD \<Rightarrow> obj \<Rightarrow> bool \<Rightarrow> error + OperationBulk" where
  "txUpdateDoc c h bulk t operations retrieve =
     (if isOperator c operations then
        (let operator = (case operations of [] \<Rightarrow> None | (k, v) # others \<Rightarrow> Some k) in
         if operator = Some ''$move'' then
           (case firstEntry (js_get operations ''$move'') of
              Inl e \<Rightarrow> Inl e
            | Inr (arr, desc) \<Rightarrow>
                Inr (pushBulk bulk
                  [UpdateOne (idFilter t)
                     [(''$set'', JObj [hashNull]),
                      (''$pull'', JObj [(arr, js_get desc ''$value'')])],
                   UpdateOne (idFilter t)
                     [(''$set'', JObj (modifyOp t @ [hashNull])),
                      (''$push'', JObj [(arr, JObj [(''$each'', JArr [js_get desc ''$value'']),
                                                    (''$position'', js_get desc ''$position'')])])]]))
         else if operator = Some ''$update'' then
           (case firstEntry (js_get operations ''$update'') of
              Inl e \<Rightarrow> Inl e
            | Inr (arr, desc) \<Rightarrow>
                (case (descOf (js_get desc ''$query''), descOf (js_get desc ''$update'')) of
                   (Inr q, Inr u) \<Rightarrow>
                     Inr (pushBulk bulk
                       [UpdateOne
                          (spread (idFilter t) (map (\<lambda>it. (arr @ ''.'' @ fst it, snd it)) q))
                          [(''$set'', JObj (spread (copyObj (map (\<lambda>it. (arr @ ''.$.'' @ fst it, snd it)) u))
                                             [hashNull]))],
                        UpdateOne (idFilter t) [(''$set'', JObj (modifyOp t @ [hashNull]))]])
                 | (Inl e, r) \<Rightarrow> Inl e
                 | (Inr q, Inl e) \<Rightarrow> Inl e))
         else
           (let upd = AList.update ''$set'' (JObj (modifyOp t @ [hashNull])) (copyObj operations) in
            if retrieve
            then Inr (bulk\<lparr> raw := raw bulk @
                        [FindOneAndUpdate (getDomain h (objectClass t)) (idFilter t) upd] \<rparr>)
            else Inr (pushBulk bulk [UpdateOne (idFilter t) upd])))
      else
        (let bulk1 = bulk\<lparr> update :=
               mergeUpdate (objectId t) (spread (copyObj operations) (modifyOp t @ [hashNull])) (update bulk) \<rparr>
         in if retrieve
            then Inr (bulk1\<lparr> findUpdate := setAdd (objectId t) (findUpdate bulk1) \<rparr>)
            else Inr bulk1))"

text \<open>\<^verbatim>\<open>translateMixinAttrs\<close>. \<open>translateMixinLoop\<close> is the loop over the entries,
  \<open>attrs\<close> the object under construction; an entry whose key starts with
  \<^verbatim>\<open>$\<close> is translated recursively, and an object without entries gets the
  marker attribute. The value under an operator key is an object in the type
  of the parameter; \<^verbatim>\<open>Object.entries\<close> of \<^verbatim>\<open>null\<close> throws.\<close>

definition mixinMarker :: "string \<Rightarrow> obj \<Rightarrow> obj \<Rightarrow> obj" where
  "mixinMarker mixin attributes attrs =
     (if length attributes = 0
      then AList.update (mixin @ ''.'' @ ''__mixin'') (JStr ''true'') attrs
      else attrs)"

fun translateMixinLoop :: "string \<Rightarrow> obj \<Rightarrow> obj \<Rightarrow> error + obj" where
  "translateMixinLoop mixin [] attrs = Inr attrs"
| "translateMixinLoop mixin ((k, v) # rest) attrs =
     (if startsWith k ''$'' then
        (case v of
           JObj nested \<Rightarrow>
             (case translateMixinLoop mixin nested [] of
                Inl e \<Rightarrow> Inl e
              | Inr sub \<Rightarrow>
                  translateMixinLoop mixin rest
                    (AList.update k (JObj (mixinMarker mixin nested sub)) attrs))
         | JUndef \<Rightarrow> Inl TypeError
         | JNull \<Rightarrow> Inl TypeError
         | _ \<Rightarrow> Inl Unsupported)
      else translateMixinLoop mixin rest (AList.update (mixin @ ''.'' @ k) v attrs))"

definition translateMixinAttrs :: "string \<Rightarrow> obj \<Rightarrow> error + obj" where
  "translateMixinAttrs mixin attributes =
     (case translateMixinLoop mixin attributes [] of
        Inl e \<Rightarrow> Inl e
      | Inr attrs \<Rightarrow> Inr (mixinMarker mixin attributes attrs))"

definition txMixin :: "core \<Rightarrow> OperationBulk \<Rightarrow> txCUD \<Rightarrow> string \<Rightarrow> obj \<Rightarrow> error + OperationBulk" where
  "txMixin c bulk t mixin attributes =
     (if isOperator c attributes then
        (let operator = (case attributes of [] \<Rightarrow> None | (k, v) # others \<Rightarrow> Some k) in
         if operator = Some ''$move'' then
           (case js_get attributes ''$move'' of
              JObj keyval \<Rightarrow>
                (let arr = mixin @ ''.'' @ (case keyval of [] \<Rightarrow> ''undefined'' | (k, v) # others \<Rightarrow> k) in
                 case descOf (js_get keyval arr) of
                   Inl e \<Rightarrow> Inl e
                 | Inr desc \<Rightarrow>
                     Inr (pushBulk bulk
                       [UpdateOne (idFilter t) [(''$pull'', JObj [(arr, js_get desc ''$value'')])],
                        UpdateOne (idFilter t)
                          [(''$set'', JObj (modifyOp t)),
                           (''$push'', JObj [(arr, JObj [(''$each'', JArr [js_get desc ''$value'']),
                                                         (''$position'', js_get desc ''$position'')])])]]))
            | JUndef \<Rightarrow> Inl TypeError
            | JNull \<Rightarrow> Inl TypeError
            | _ \<Rightarrow> Inl Unsupported)
         else
           (case translateMixinAttrs mixin attributes of
              Inl e \<Rightarrow> Inl e
            | Inr tm \<Rightarrow>
                Inr (pushBulk bulk
                  [UpdateOne (idFilter t) (AList.update ''$set'' (JObj (modifyOp t)) (copyObj tm))])))
      else
        (case translateMixinAttrs mixin attributes of
           Inl e \<Rightarrow> Inl e
         | Inr tm \<Rightarrow>
             Inr (bulk\<lparr> update := mergeUpdate (objectId t) (spread (copyObj tm) (modifyOp t)) (update bulk) \<rparr>)))"

text \<open>\<^verbatim>\<open>updateBulk\<close> with \<^verbatim>\<open>txCollectionCUD\<close> inlined: a wrapped create gets
  the owner linkage, any other wrapped transaction is compiled as it is.\<close>

fun updateBulk :: "core \<Rightarrow> hierarchy \<Rightarrow> OperationBulk \<Rightarrow> tx \<Rightarrow> error + OperationBulk" where
  "updateBulk c h bulk (TxCreateDoc t attrs) = Inr (txCreateDoc c bulk t attrs)"
| "updateBulk c h bulk (TxCollectionCUD t collection (TxCreateDoc ct attrs)) =
     Inr (txCreateDoc c bulk ct
            (spread (copyObj attrs) [(''attachedTo'', JStr (objectId t)),
                           (''attachedToClass'', JStr (objectClass t)),
                           (''collection'', JStr collection)]))"
| "updateBulk c h bulk (TxCollectionCUD t collection inner) = updateBulk c h bulk inner"
| "updateBulk c h bulk (TxUpdateDoc t operations retrieve) = txUpdateDoc c h bulk t operations retrieve"
| "updateBulk c h bulk (TxRemoveDoc t) = Inr (txRemoveDoc bulk t)"
| "updateBulk c h bulk (TxMixin t mixin attributes) = txMixin c bulk t mixin attributes"
| "updateBulk c h bulk TxApplyIf = Inr bulk"
| "updateBulk c h bulk (TxOther cl) = Inr bulk"

text \<open>The body of \<^verbatim>\<open>tx\<close> for one domain group: the transactions of the group are
  compiled in their order into one \<^verbatim>\<open>OperationBulk\<close>, and the buckets that are
  not empty are sent to the collection one after the other. The result is the
  sequence of calls on the collection.\<close>

fun compileTxs :: "core \<Rightarrow> hierarchy \<Rightarrow> OperationBulk \<Rightarrow> tx list \<Rightarrow> error + OperationBulk" where
  "compileTxs c h bulk [] = Inr bulk"
| "compileTxs c h bulk (t # txs) =
     (case updateBulk c h bulk t of
        Inl e \<Rightarrow> Inl e
      | Inr bulk1 \<Rightarrow> compileTxs c h bulk1 txs)"

datatype backendCall =
    InsertMany "obj list"
  | BulkWrite "bulkOp list"
  | FindCall obj
  | RawCall rawOp

definition setOne :: "string \<times> obj \<Rightarrow> bulkOp" where
  "setOne it = UpdateOne [(''_id'', JStr (fst it))] [(''$set'', JObj (snd it))]"

definition applyBulk :: "OperationBulk \<Rightarrow> backendCall list" where
  "applyBulk domainBulk =
     (if length (add domainBulk) = 0 \<and> length (update domainBulk) = 0
         \<and> length (bulkOperations domainBulk) = 0 \<and> length (findUpdate domainBulk) = 0
         \<and> length (raw domainBulk) = 0
      then []
      else
        (if length (add domainBulk) > 0 then [InsertMany (add domainBulk)] else [])
        @ (if length (update domainBulk) > 0 then [BulkWrite (map setOne (update domainBulk))] else [])
        @ (if length (bulkOperations domainBulk) > 0 then [BulkWrite (bulkOperations domainBulk)] else [])
        @ (if length (findUpdate domainBulk) > 0
           then [FindCall [(''_id'', JObj [(''$in'', JArr (map JStr (findUpdate domainBulk)))])]]
           else [])
        @ map RawCall (raw domainBulk))"

definition txDomain :: "core \<Rightarrow> hierarchy \<Rightarrow> tx list \<Rightarrow> error + backendCall list" where
  "txDomain c h txs =
     (case compileTxs c h emptyBulk txs of
        Inl e \<Rightarrow> Inl e
      | Inr domainBulk \<Rightarrow> Inr (applyBulk domainBulk))"

section \<open>Bulk update with retry\<close>










section \<open>Incremental hash iterator\<close>

text \<open>
  A stored document has an identifier, its fields, and the metadata field
  \<^verbatim>\<open>%hash%\<close>: \<open>None\<close> when the field is null or missing. The option
  \<^verbatim>\<open>calculateHash\<close>, the default SHA-256 digest in base 64 and
  \<^verbatim>\<open>estimateDocSize\<close> are parameters; they see the document without its
  metadata field.
\<close>

record storedDoc =
  docId :: string
  content :: obj
  hashMeta :: "string option"

record hashEnv =
  calculateHash :: "(string \<times> obj \<Rightarrow> string) option"
  sha256Base64 :: "string \<times> obj \<Rightarrow> string"
  estimateDocSize :: "string \<times> obj \<Rightarrow> nat"

definition digestOf :: "hashEnv \<Rightarrow> string \<times> obj \<Rightarrow> string" where
  "digestOf env d = (case calculateHash env of Some f \<Rightarrow> f d | None \<Rightarrow> sha256Base64 env d)"

text \<open>\<^verbatim>\<open>Number.prototype.toString(16)\<close> of a natural number and
  \<^verbatim>\<open>parseInt(s, 16)\<close>: leading white space, a sign and a prefix \<^verbatim>\<open>0x\<close> are
  skipped, the longest run of hexadecimal digits is read, and the result is
  \<^verbatim>\<open>NaN\<close> (here \<open>None\<close>) when that run is empty.\<close>

definition hexDigit :: "nat \<Rightarrow> char" where
  "hexDigit n = ''0123456789abcdef'' ! n"

function toHex :: "nat \<Rightarrow> string" where
  "toHex n = (if n < 16 then [hexDigit n] else toHex (n div 16) @ [hexDigit (n mod 16)])"
  by pat_completeness auto
termination
  by (relation "measure (\<lambda>n. n)") auto

declare toHex.simps [simp del]

definition digitVal :: "char \<Rightarrow> nat option" where
  "digitVal ch =
     (let n = (of_char ch :: nat) in
      if 48 \<le> n \<and> n \<le> 57 then Some (n - 48)
      else if 97 \<le> n \<and> n \<le> 102 then Some (n - 87)
      else if 65 \<le> n \<and> n \<le> 70 then Some (n - 55)
      else None)"

definition isWhite :: "char \<Rightarrow> bool" where
  "isWhite ch = ((of_char ch :: nat) \<in> {9, 10, 11, 12, 13, 32})"

definition parseInt16 :: "string \<Rightarrow> int option" where
  "parseInt16 s =
     (let s1 = dropWhile isWhite s;
          negative = (case s1 of [] \<Rightarrow> False | ch # r \<Rightarrow> ch = CHR ''-'');
          s2 = (case s1 of [] \<Rightarrow> s1 | ch # r \<Rightarrow> if ch = CHR ''-'' \<or> ch = CHR ''+'' then r else s1);
          s3 = (case s2 of
                  a # b # r \<Rightarrow> if a = CHR ''0'' \<and> (b = CHR ''x'' \<or> b = CHR ''X'') then r else s2
                | _ \<Rightarrow> s2);
          ds = takeWhile (\<lambda>ch. digitVal ch \<noteq> None) s3;
          n = foldl (\<lambda>a ch. 16 * a + the (digitVal ch)) 0 ds
      in if ds = [] then None
         else Some (if negative then - int n else int n))"

fun indexOf :: "char \<Rightarrow> string \<Rightarrow> nat option" where
  "indexOf ch [] = None"
| "indexOf ch (x # xs) =
     (if x = ch then Some 0 else map_option Suc (indexOf ch xs))"

text \<open>The branch that serves a stored digest: \<^verbatim>\<open>digest.slice(0, pos)\<close> and
  \<^verbatim>\<open>parseInt(digest.slice(pos + 1), 16)\<close>, where \<^verbatim>\<open>pos\<close> is \<^verbatim>\<open>-1\<close> when the
  digest has no separator.\<close>

definition parseDigest :: "string \<Rightarrow> string \<times> int option" where
  "parseDigest digest =
     (case indexOf (CHR ''|'') digest of
        None \<Rightarrow> (butlast digest, parseInt16 digest)
      | Some pos \<Rightarrow> (take pos digest, parseInt16 (drop (pos + 1) digest)))"

datatype iterMode = Hashed | NonHashed

text \<open>
  The state of one iterator: the collection, the mode, the cursor (the documents
  the current query still has to deliver, \<open>None\<close> before the first \<^verbatim>\<open>next\<close>),
  the map \<^verbatim>\<open>bulkUpdate\<close>, and the documents for which a digest was computed so
  far. A cursor delivers the documents that matched when the query was made.
\<close>

record iterState =
  coll :: "storedDoc list"
  mode :: iterMode
  iterator :: "storedDoc list option"
  bulkUpdate :: "(string \<times> string) list"
  computed :: "(string \<times> obj) list"

definition isHashed :: "storedDoc \<Rightarrow> bool" where
  "isHashed d = (hashMeta d \<noteq> None \<and> hashMeta d \<noteq> Some [])"

fun setHashOne :: "string \<Rightarrow> string \<Rightarrow> storedDoc list \<Rightarrow> storedDoc list" where
  "setHashOne i v [] = []"
| "setHashOne i v (d # ds) =
     (if docId d = i then d\<lparr> hashMeta := Some v \<rparr> # ds else d # setHashOne i v ds)"

definition flush :: "bool \<Rightarrow> iterState \<Rightarrow> iterState" where
  "flush force s =
     (if length (bulkUpdate s) > 1000 \<or> force then
        (let s1 = (if length (bulkUpdate s) > 0
                   then s\<lparr> coll := foldl (\<lambda>cl it. setHashOne (fst it) (snd it) cl) (coll s) (bulkUpdate s) \<rparr>
                   else s)
         in s1\<lparr> bulkUpdate := [] \<rparr>)
      else s)"

definition openCursor :: "bool \<Rightarrow> iterState \<Rightarrow> iterState" where
  "openCursor recheck s =
     (case iterator s of
        Some cur \<Rightarrow> s
      | None \<Rightarrow>
          (let coll1 = (if recheck
                        then map (\<lambda>d. if hashMeta d \<noteq> None then d\<lparr> hashMeta := None \<rparr> else d) (coll s)
                        else coll s)
           in s\<lparr> coll := coll1, iterator := Some (filter isHashed coll1) \<rparr>))"

definition cursorNext :: "iterState \<Rightarrow> storedDoc option \<times> iterState" where
  "cursorNext s =
     (case iterator s of
        Some (d # ds) \<Rightarrow> (Some d, s\<lparr> iterator := Some ds \<rparr>)
      | _ \<Rightarrow> (None, s))"

definition nextDoc :: "bool \<Rightarrow> iterState \<Rightarrow> storedDoc option \<times> iterState" where
  "nextDoc recheck s =
     (let (d, s1) = cursorNext (openCursor recheck s) in
      if d = None \<and> mode s1 = Hashed
      then cursorNext (s1\<lparr> mode := NonHashed, iterator := Some (filter (\<lambda>x. \<not> isHashed x) (coll s1)) \<rparr>)
      else (d, s1))"

definition iterNext ::
  "hashEnv \<Rightarrow> bool \<Rightarrow> iterState \<Rightarrow> (string \<times> string \<times> int option) option \<times> iterState" where
  "iterNext env recheck s =
     (case nextDoc recheck s of
        (None, s1) \<Rightarrow> (None, s1)
      | (Some d, s1) \<Rightarrow>
          if hashMeta d = None \<or> hashMeta d = Some [] then
            (let sz = estimateDocSize env (docId d, content d);
                 digest = digestOf env (docId d, content d);
                 s2 = s1\<lparr> bulkUpdate := AList.update (docId d) (digest @ ''|'' @ toHex sz) (bulkUpdate s1),
                          computed := computed s1 @ [(docId d, content d)] \<rparr>
             in (Some (docId d, digest, Some (int sz)), flush False s2))
          else
            (let parsed = parseDigest (the (hashMeta d))
             in (Some (docId d, fst parsed, snd parsed), s1)))"

definition iterClose :: "iterState \<Rightarrow> error + iterState" where
  "iterClose s =
     (let s1 = flush True s in
      case iterator s1 of
        None \<Rightarrow> Inl TypeError
      | Some cur \<Rightarrow> Inr s1)"

definition remaining :: "iterState \<Rightarrow> nat" where
  "remaining s =
     (case iterator s of
        None \<Rightarrow> 2 * length (coll s) + 2
      | Some cur \<Rightarrow> length cur + (if mode s = Hashed then length (coll s) + 1 else 0))"

definition newIterator :: "storedDoc list \<Rightarrow> iterState" where
  "newIterator cl = \<lparr> coll = cl, mode = Hashed, iterator = None, bulkUpdate = [], computed = [] \<rparr>"

text \<open>Reading the iterator to its end: \<^verbatim>\<open>next\<close> is called until it answers
  \<^verbatim>\<open>undefined\<close>. Every call that delivers a document shortens what is left
  to deliver (\<^const>\<open>remaining\<close>), so the loop ends.\<close>

function drain ::
  "hashEnv \<Rightarrow> bool \<Rightarrow> iterState \<Rightarrow> (string \<times> string \<times> int option) list \<times> iterState" where
  "drain env recheck s =
     (case iterNext env recheck s of
        (None, s1) \<Rightarrow> ([], s1)
      | (Some r, s1) \<Rightarrow> (let (rs, s2) = drain env recheck s1 in (r # rs, s2)))"
  by pat_completeness auto
termination
proof (relation "measure (\<lambda>(env, recheck, s). remaining s)")
  show "wf (measure (\<lambda>(env, recheck, s). remaining s))" by simp
next
  fix env :: hashEnv and recheck :: bool and s s1 :: iterState
    and x :: "(string \<times> string \<times> int option) option"
    and r :: "string \<times> string \<times> int option"
  assume x: "(x, s1) = iterNext env recheck s" and xr: "x = Some r"
  have len_one: "length (setHashOne i v ds) = length ds" for i v ds
    by (induction ds) auto
  have len_all: "length (foldl (\<lambda>cl it. setHashOne (fst it) (snd it) cl) cl0 us) = length cl0"
    for cl0 us
    by (induction us arbitrary: cl0) (auto simp: len_one)
  have rem_flush: "remaining (flush f t) = remaining t" for f t
    by (auto simp: remaining_def flush_def Let_def len_all split: option.splits)
  have cur_some: "iterator t \<noteq> None \<and> remaining t1 < remaining t"
    if "cursorNext t = (Some d, t1)" for t d t1
    using that by (auto simp: cursorNext_def remaining_def split: option.splits list.splits)
  have cur_none: "t1 = t" if "cursorNext t = (None, t1)" for t t1
    using that by (auto simp: cursorNext_def split: option.splits list.splits)
  have rem_open: "remaining (openCursor recheck t) \<le> remaining t" for t
    by (auto simp: openCursor_def remaining_def Let_def split: option.splits
        intro: le_trans [OF length_filter_le])
  have open_it: "iterator (openCursor recheck t) \<noteq> None" for t
    by (auto simp: openCursor_def Let_def split: option.splits)
  have doc: "remaining t1 < remaining t" if nd: "nextDoc recheck t = (Some d, t1)" for t d t1
  proof -
    obtain d0 t0 where c0: "cursorNext (openCursor recheck t) = (d0, t0)"
      by (cases "cursorNext (openCursor recheck t)")
    show ?thesis
    proof (cases "d0 = None \<and> mode t0 = Hashed")
      case False
      with nd c0 have "cursorNext (openCursor recheck t) = (Some d, t1)"
        by (auto simp: nextDoc_def)
      from cur_some [OF this] rem_open [of t] show ?thesis by simp
    next
      case True
      with c0 have t0: "t0 = openCursor recheck t" by (auto dest: cur_none)
      let ?t' = "t0\<lparr> mode := NonHashed, iterator := Some (filter (\<lambda>x. \<not> isHashed x) (coll t0)) \<rparr>"
      from nd c0 True have "cursorNext ?t' = (Some d, t1)"
        by (auto simp: nextDoc_def)
      from cur_some [OF this] have "remaining t1 < remaining ?t'" by simp
      also have "remaining ?t' \<le> length (coll t0)"
        by (simp add: remaining_def)
      also have "length (coll t0) < remaining t0"
        using True open_it [of t] by (auto simp: remaining_def t0 split: option.splits)
      also have "remaining t0 \<le> remaining t"
        by (simp add: t0 rem_open)
      finally show ?thesis .
    qed
  qed
  from x xr have run: "iterNext env recheck s = (Some r, s1)" by (simp add: sym)
  obtain d t1 where nd: "nextDoc recheck s = (Some d, t1)"
    using run by (auto simp: iterNext_def split: prod.splits option.splits)
  have "remaining s1 = remaining t1"
  proof (cases "hashMeta d = None \<or> hashMeta d = Some []")
    case True
    let ?t2 = "t1\<lparr> bulkUpdate := AList.update (docId d)
                   (digestOf env (docId d, content d) @ ''|'' @ toHex (estimateDocSize env (docId d, content d)))
                   (bulkUpdate t1),
                 computed := computed t1 @ [(docId d, content d)] \<rparr>"
    from run nd True have "s1 = flush False ?t2"
      by (simp add: iterNext_def Let_def)
    then have "remaining s1 = remaining ?t2" by (simp only: rem_flush)
    also have "remaining ?t2 = remaining t1" by (simp add: remaining_def split: option.splits)
    finally show ?thesis .
  next
    case False
    with run nd have "s1 = t1" by (simp add: iterNext_def Let_def)
    then show ?thesis by simp
  qed
  with doc [OF nd] show "((env, recheck, s1), (env, recheck, s)) \<in> measure (\<lambda>(env, recheck, s). remaining s)"
    by simp
qed

declare drain.simps [simp del]

text \<open>One pass: a fresh iterator is read to its end and closed. The result is
  what it delivered and the state it leaves.\<close>

definition iterateHashes ::
  "hashEnv \<Rightarrow> bool \<Rightarrow> storedDoc list
     \<Rightarrow> error + (string \<times> string \<times> int option) list \<times> iterState" where
  "iterateHashes env recheck cl =
     (let (rs, s) = drain env recheck (newIterator cl) in
      case iterClose s of
        Inl e \<Rightarrow> Inl e
      | Inr s1 \<Rightarrow> Inr (rs, s1))"

section \<open>Notions used to state the properties\<close>

text \<open>The class constraint that admits exactly the classes of a list: the class
  itself when the list has one element, membership otherwise.\<close>

definition classConstraint :: "string list \<Rightarrow> jv" where
  "classConstraint ds = (case ds of [x] \<Rightarrow> JStr x | _ \<Rightarrow> JObj [(''$in'', JArr (map JStr ds))])"

text \<open>A document, an update or an operation invalidates the cached hash when it
  writes \<^verbatim>\<open>null\<close> into \<^verbatim>\<open>%hash%\<close>: for an inserted document and a merged
  field set the field itself, for an update document the field under
  \<^verbatim>\<open>$set\<close>.\<close>

definition nullsHash :: "obj \<Rightarrow> bool" where
  "nullsHash ob = (map_of ob ''%hash%'' = Some JNull)"

definition updateNullsHash :: "obj \<Rightarrow> bool" where
  "updateNullsHash upd = (case js_get upd ''$set'' of JObj st \<Rightarrow> nullsHash st | _ \<Rightarrow> False)"

fun opNullsHash :: "bulkOp \<Rightarrow> bool" where
  "opNullsHash (UpdateOne flt upd) = updateNullsHash upd"
| "opNullsHash (DeleteOne flt) = False"

fun rawNullsHash :: "rawOp \<Rightarrow> bool" where
  "rawNullsHash (FindOneAndUpdate domain flt upd) = updateNullsHash upd"

definition bulkNullsHash :: "OperationBulk \<Rightarrow> bool" where
  "bulkNullsHash b =
     (list_all nullsHash (add b) \<and> list_all (\<lambda>it. nullsHash (snd it)) (update b)
      \<and> list_all opNullsHash (bulkOperations b) \<and> list_all rawNullsHash (raw b))"


section \<open>An instance of the parameters\<close>

text \<open>
  The examples below run the model on a small hierarchy: a class \<^verbatim>\<open>C\<close> with a
  subclass \<^verbatim>\<open>D\<close> and a mixin \<^verbatim>\<open>M\<close>, an unrelated class \<^verbatim>\<open>E\<close>, all stored
  in the domain \<^verbatim>\<open>task\<close>; \<^verbatim>\<open>dueDate\<close> is a date attribute of \<^verbatim>\<open>C\<close>.
\<close>

definition example_hierarchy :: hierarchy where
  "example_hierarchy =
     \<lparr> getBaseClass = (\<lambda>cl. if cl = ''M'' then ''C'' else cl),
       getDescendants = (\<lambda>cl. if cl = ''C'' then [''C'', ''D'', ''M''] else [cl]),
       isMixin = (\<lambda>cl. cl = ''M''),
       findAttribute = (\<lambda>cl k. if k = ''dueDate''
                               then Some \<lparr> attributeOf = ''C'', typeClass = ''core:class:TypeDate'' \<rparr>
                               else None),
       getDomain = (\<lambda>cl. ''task'') \<rparr>"

text \<open>Modelled from the spec: \<^verbatim>\<open>escapeLikeForRegexp\<close> belongs to the core package,
  which is not under src/. The spec asks that the regex metacharacters of a
  literal segment be escaped: each one gets a backslash in front.\<close>

definition example_escape :: "string \<Rightarrow> string" where
  "example_escape s =
     concat (map (\<lambda>ch. if ch \<in> set ''-/^$*+?.()|[]{}'' \<or> ch = CHR 0x5C then [CHR 0x5C, ch] else [ch]) s)"

text \<open>Modelled from the spec: \<^verbatim>\<open>isOperator\<close> belongs to the core package, which is
  not under src/. The spec's operator-tagged delta is an object that has keys, all
  of them operators, which start with \<^verbatim>\<open>$\<close>.\<close>

definition example_isOperator :: "obj \<Rightarrow> bool" where
  "example_isOperator ob = (ob \<noteq> [] \<and> list_all (\<lambda>kv. startsWith (fst kv) ''$'') ob)"

text \<open>Modelled from the spec: \<^verbatim>\<open>TxProcessor.createDoc2Doc\<close> belongs to the core
  package, which is not under src/. The created document is the full initial
  value of the transaction with its identifier, class and space and the
  modification stamp.\<close>

definition example_createDoc2Doc :: "txCUD \<Rightarrow> obj \<Rightarrow> obj" where
  "example_createDoc2Doc t attrs =
     spread (copyObj attrs) [(''_id'', JStr (objectId t)), (''_class'', JStr (objectClass t)),
                   (''space'', JStr (objectSpace t)), (''modifiedBy'', JStr (modifiedBy t)),
                   (''modifiedOn'', JNum (modifiedOn t))]"

definition example_core :: core where
  "example_core =
     \<lparr> class_Doc = ''core:class:Doc'', class_TypeDate = ''core:class:TypeDate'',
       DOMAIN_MODEL = ''model'', escapeLikeForRegexp = example_escape,
       isOperator = example_isOperator, createDoc2Doc = example_createDoc2Doc \<rparr>"

definition example_tx :: "string \<Rightarrow> txCUD" where
  "example_tx oid = \<lparr> objectId = oid, objectClass = ''C'', objectSpace = ''s'',
                      modifiedBy = ''u'', modifiedOn = 7 \<rparr>"



text \<open>What one transaction compiles to on its own.\<close>

definition compiledAlone :: "core \<Rightarrow> hierarchy \<Rightarrow> tx \<Rightarrow> OperationBulk" where
  "compiledAlone c h t = (case updateBulk c h emptyBulk t of Inr b \<Rightarrow> b | Inl e \<Rightarrow> emptyBulk)"


text \<open>What a pass delivers for a document whose digest is stored and for one whose
  digest it computes, the metadata it stores for the latter, and the collection
  as it will be once the buffered metadata is written.\<close>

definition servedTriple :: "storedDoc \<Rightarrow> string \<times> string \<times> int option" where
  "servedTriple d =
     (docId d, fst (parseDigest (the (hashMeta d))), snd (parseDigest (the (hashMeta d))))"

definition freshTriple :: "hashEnv \<Rightarrow> storedDoc \<Rightarrow> string \<times> string \<times> int option" where
  "freshTriple env d =
     (docId d, digestOf env (docId d, content d), Some (int (estimateDocSize env (docId d, content d))))"

definition encoded :: "hashEnv \<Rightarrow> storedDoc \<Rightarrow> string" where
  "encoded env d =
     digestOf env (docId d, content d) @ ''|'' @ toHex (estimateDocSize env (docId d, content d))"

definition effective :: "iterState \<Rightarrow> storedDoc list" where
  "effective s = foldl (\<lambda>cl it. setHashOne (fst it) (snd it) cl) (coll s) (bulkUpdate s)"

text \<open>A hash option whose digests contain the separator, and a document that has
  no metadata yet.\<close>

definition example_hashEnv :: hashEnv where
  "example_hashEnv =
     \<lparr> calculateHash = Some (\<lambda>d. ''a|b''), sha256Base64 = (\<lambda>d. ''c2hh''),
       estimateDocSize = (\<lambda>d. 10) \<rparr>"

definition example_doc :: storedDoc where
  "example_doc = \<lparr> docId = ''x'', content = [(''title'', JStr ''n'')], hashMeta = None \<rparr>"

section \<open>Properties of the query translator\<close>

lemma js_get_Nil [simp]: "js_get [] k = JUndef"
  by (simp add: js_get_def)

lemma js_get_Cons [simp]: "js_get ((k', v) # r) k = (if k = k' then v else js_get r k)"
  by (simp add: js_get_def)

lemma js_get_update: "js_get (AList.update k v t) k' = (if k' = k then v else js_get t k')"
  by (simp add: js_get_def update_conv')







lemma map_of_simplifyClass:
  "k \<noteq> ''_class'' \<Longrightarrow> map_of (simplifyClass t) k = map_of t k"
  by (auto simp: simplifyClass_def update_conv' split: jv.splits list.splits)


lemma translateClass_class:
  "getBaseClass h clazz \<noteq> class_Doc c \<Longrightarrow> clazz \<noteq> ''_class'' \<Longrightarrow>
   js_get (translateClass c h clazz tr) ''_class'' =
     (case js_get tr ''_class'' of
        JUndef \<Rightarrow> JObj [(''$in'', JArr (map JStr (getDescendants h (getBaseClass h clazz))))]
      | JStr s \<Rightarrow> if s \<notin> set (getDescendants h (getBaseClass h clazz))
                  then noMixins h (getDescendants h (getBaseClass h clazz)) else JStr s
      | JObj cq \<Rightarrow> classObject h (getDescendants h (getBaseClass h clazz)) cq
      | JArr xs \<Rightarrow> classObject h (getDescendants h (getBaseClass h clazz)) []
      | v \<Rightarrow> v)"
  by (auto simp: translateClass_def Let_def js_get_update split: jv.splits)

lemma js_get_simplifyClass_other:
  "k \<noteq> ''_class'' \<Longrightarrow> js_get (simplifyClass t) k = js_get t k"
  by (simp add: js_get_def map_of_simplifyClass)

lemma simplifyClass_class:
  "js_get (simplifyClass t) ''_class'' =
     (case js_get t ''_class'' of
        JObj cq \<Rightarrow> (case js_get cq ''$in'' of
                      JArr [x] \<Rightarrow> if js_get cq ''$nin'' = JUndef then x else JObj cq
                    | _ \<Rightarrow> JObj cq)
      | v \<Rightarrow> v)"
  by (auto simp: simplifyClass_def js_get_update split: jv.splits list.splits)

lemma set_inClasses: "set (inClasses classes cs) = {d \<in> set classes. JStr d \<in> set cs}"
  by (induction classes cs rule: inClasses.induct) auto

lemma simplify_noMixins:
  "js_get t ''_class'' = noMixins h ds \<Longrightarrow>
   js_get (simplifyClass t) ''_class'' = classConstraint (filter (\<lambda>d. \<not> isMixin h d) ds)"
  by (auto simp: simplifyClass_class noMixins_def classConstraint_def
      split: list.splits)

text \<open>
  C4, on the code: a query on the class \<^verbatim>\<open>C\<close> whose predicate is empty gets the
  class constraint \<^verbatim>\<open>{ $in: ['C', 'D', 'M'] }\<close>, where \<^verbatim>\<open>M\<close> is a mixin: when
  the predicate does not mention the class, the descendants are written into the
  filter without the mixins being removed, although every other branch of the
  same function removes them.
\<close>

theorem translateQuery_unconstrained_keeps_mixins:
  "isMixin example_hierarchy ''M''
   \<and> getBaseClass example_hierarchy ''C'' \<noteq> class_Doc example_core
   \<and> translateQuery example_core example_hierarchy ''C'' [] =
       Inr [(''_class'', JObj [(''$in'', JArr [JStr ''C'', JStr ''D'', JStr ''M''])])]"
  by code_simp

text \<open>
  C5 as stated fails: the predicate fixes the class to the single value \<^verbatim>\<open>E\<close>,
  which is not a descendant of the requested class \<^verbatim>\<open>C\<close>. The intersection
  with the descendants is empty, but the translated filter admits \<^verbatim>\<open>C\<close> and
  \<^verbatim>\<open>D\<close>: the value was overwritten with the descendants.
\<close>

theorem translateQuery_single_class_counterexample:
  "''E'' \<notin> set (getDescendants example_hierarchy (getBaseClass example_hierarchy ''C''))
   \<and> translateQuery example_core example_hierarchy ''C'' [(''_class'', JStr ''E'')] =
       Inr [(''_class'', JObj [(''$in'', JArr [JStr ''C'', JStr ''D''])])]"
  by code_simp

text \<open>
  C5, amended. Let the requested class have a base class other than the root, and
  let \<open>tr\<close> be the predicate after the translation of its keys. If \<open>tr\<close> fixes the
  class to a single value, the value stays when it is a descendant of the base
  class, and is replaced by the descendants that are not mixins when it is not.
  If \<open>tr\<close> constrains the class by an object, the translated constraint admits
  exactly the descendants of the base class that are not mixins, that belong to
  \<^verbatim>\<open>$in\<close> when it is a list, and that do not belong to \<^verbatim>\<open>$nin\<close> when it is a
  list. In both cases a constraint that admits one class is that class, and any
  other is a \<^verbatim>\<open>$in\<close> list (\<^const>\<open>classConstraint\<close>).
\<close>

theorem translateQuery_class_constrained:
  assumes "translateEntries c h clazz query [] = Inr tr"
    and "getBaseClass h clazz \<noteq> class_Doc c"
    and "clazz \<noteq> ''_class''"
  shows "\<exists>t. translateQuery c h clazz query = Inr t
    \<and> (\<forall>s. js_get tr ''_class'' = JStr s \<longrightarrow>
          js_get t ''_class'' =
            (if s \<in> set (getDescendants h (getBaseClass h clazz)) then JStr s
             else classConstraint (filter (\<lambda>d. \<not> isMixin h d) (getDescendants h (getBaseClass h clazz)))))
    \<and> (\<forall>cq. js_get tr ''_class'' = JObj cq \<longrightarrow>
          (\<exists>ds. set ds = {d \<in> set (getDescendants h (getBaseClass h clazz)).
                            \<not> isMixin h d
                            \<and> (\<forall>cs. js_get cq ''$in'' = JArr cs \<longrightarrow> JStr d \<in> set cs)
                            \<and> (\<forall>ex. js_get cq ''$nin'' = JArr ex \<longrightarrow> JStr d \<notin> set ex)}
                \<and> js_get t ''_class'' = classConstraint ds))"
proof -
  let ?classes = "getDescendants h (getBaseClass h clazz)"
  let ?t = "simplifyClass (translateClass c h clazz tr)"
  have run: "translateQuery c h clazz query = Inr ?t"
    using assms(1) by (simp add: translateQuery_def)
  have str: "js_get ?t ''_class'' =
        (if s \<in> set ?classes then JStr s
         else classConstraint (filter (\<lambda>d. \<not> isMixin h d) ?classes))"
    if "js_get tr ''_class'' = JStr s" for s
  proof (cases "s \<in> set ?classes")
    case True
    with that assms(2,3) have "js_get (translateClass c h clazz tr) ''_class'' = JStr s"
      by (simp add: translateClass_class)
    with True show ?thesis by (simp add: simplifyClass_class)
  next
    case False
    with that assms(2,3)
    have "js_get (translateClass c h clazz tr) ''_class'' = noMixins h ?classes"
      by (simp add: translateClass_class)
    from simplify_noMixins [OF this] False show ?thesis by simp
  qed
  have ob: "\<exists>ds. set ds = {d \<in> set ?classes. \<not> isMixin h d
                            \<and> (\<forall>cs. js_get cq ''$in'' = JArr cs \<longrightarrow> JStr d \<in> set cs)
                            \<and> (\<forall>ex. js_get cq ''$nin'' = JArr ex \<longrightarrow> JStr d \<notin> set ex)}
                \<and> js_get ?t ''_class'' = classConstraint ds"
    if "js_get tr ''_class'' = JObj cq" for cq
  proof -
    define d1 where "d1 = (case js_get cq ''$in'' of JArr cs \<Rightarrow> inClasses ?classes cs | _ \<Rightarrow> ?classes)"
    define d2 where "d2 = (case js_get cq ''$nin'' of JArr ex \<Rightarrow> filter (\<lambda>c. JStr c \<notin> set ex) d1 | _ \<Rightarrow> d1)"
    have co: "classObject h ?classes cq = noMixins h d2"
      by (auto simp: classObject_def d1_def d2_def Let_def split: jv.splits)
    from that assms(2,3)
    have "js_get (translateClass c h clazz tr) ''_class'' = noMixins h d2"
      by (simp add: translateClass_class co)
    from simplify_noMixins [OF this]
    have res: "js_get ?t ''_class'' = classConstraint (filter (\<lambda>d. \<not> isMixin h d) d2)" .
    have s1: "set d1 = {d \<in> set ?classes. \<forall>cs. js_get cq ''$in'' = JArr cs \<longrightarrow> JStr d \<in> set cs}"
      by (auto simp: d1_def set_inClasses split: jv.splits)
    have s2: "set d2 = {d \<in> set d1. \<forall>ex. js_get cq ''$nin'' = JArr ex \<longrightarrow> JStr d \<notin> set ex}"
      by (auto simp: d2_def split: jv.splits)
    have "set (filter (\<lambda>d. \<not> isMixin h d) d2) =
            {d \<in> set ?classes. \<not> isMixin h d
                            \<and> (\<forall>cs. js_get cq ''$in'' = JArr cs \<longrightarrow> JStr d \<in> set cs)
                            \<and> (\<forall>ex. js_get cq ''$nin'' = JArr ex \<longrightarrow> JStr d \<notin> set ex)}"
      unfolding set_filter s2 s1 by blast
    with res show ?thesis by blast
  qed
  from run str ob show ?thesis by blast
qed

text \<open>The amended C5 at work: the class \<^verbatim>\<open>C\<close> is asked for with
  \<^verbatim>\<open>{ $in: ['D', 'E', 'M'], $nin: ['C'] }\<close>; of the descendants \<^verbatim>\<open>C\<close>, \<^verbatim>\<open>D\<close>,
  \<^verbatim>\<open>M\<close> only \<^verbatim>\<open>D\<close> is left, and the constraint is \<^verbatim>\<open>D\<close> itself.\<close>

theorem translateQuery_class_constrained_witness:
  "translateEntries example_core example_hierarchy ''C''
      [(''_class'', JObj [(''$in'', JArr [JStr ''D'', JStr ''E'', JStr ''M'']), (''$nin'', JArr [JStr ''C''])])] []
     = Inr [(''_class'', JObj [(''$in'', JArr [JStr ''D'', JStr ''E'', JStr ''M'']), (''$nin'', JArr [JStr ''C''])])]
   \<and> getBaseClass example_hierarchy ''C'' \<noteq> class_Doc example_core
   \<and> (\<exists>t. translateQuery example_core example_hierarchy ''C''
             [(''_class'', JObj [(''$in'', JArr [JStr ''D'', JStr ''E'', JStr ''M'']), (''$nin'', JArr [JStr ''C''])])]
             = Inr t
          \<and> js_get t ''_class'' = JStr ''D'')"
proof -
  let ?cq = "[(''$in'', JArr [JStr ''D'', JStr ''E'', JStr ''M'']), (''$nin'', JArr [JStr ''C''])]"
  let ?q = "[(''_class'', JObj ?cq)]"
  have h1: "translateEntries example_core example_hierarchy ''C'' ?q [] = Inr ?q"
    by code_simp
  have h2: "getBaseClass example_hierarchy ''C'' \<noteq> class_Doc example_core"
    by code_simp
  have h3: "''C'' \<noteq> ''_class''" by simp
  from translateQuery_class_constrained [OF h1 h2 h3]
  obtain t ds where t: "translateQuery example_core example_hierarchy ''C'' ?q = Inr t"
    and ds: "set ds = {d \<in> set (getDescendants example_hierarchy (getBaseClass example_hierarchy ''C'')).
                        \<not> isMixin example_hierarchy d
                        \<and> (\<forall>cs. js_get ?cq ''$in'' = JArr cs \<longrightarrow> JStr d \<in> set cs)
                        \<and> (\<forall>ex. js_get ?cq ''$nin'' = JArr ex \<longrightarrow> JStr d \<notin> set ex)}"
    and res: "js_get t ''_class'' = classConstraint ds"
    by auto
  have "translateQuery example_core example_hierarchy ''C'' ?q = Inr [(''_class'', JStr ''D'')]"
    by code_simp
  with t have "js_get t ''_class'' = JStr ''D''" by auto
  with h1 h2 t show ?thesis by blast
qed



text \<open>
  C10. When the base class of the requested class is neither the requested class
  itself nor the root, the translated filter requires the key named after the
  requested class to exist.
\<close>

theorem translateQuery_mixin_exists:
  assumes "translateQuery c h clazz query = Inr t"
    and "getBaseClass h clazz \<noteq> class_Doc c"
    and "getBaseClass h clazz \<noteq> clazz"
  shows "js_get t clazz = JObj [(''$exists'', JBool True)]"
proof -
  from assms(1) obtain tr where t: "t = simplifyClass (translateClass c h clazz tr)"
    by (auto simp: translateQuery_def split: sum.splits)
  have tc: "js_get (translateClass c h clazz tr) clazz = JObj [(''$exists'', JBool True)]"
    using assms(2,3) by (simp add: translateClass_def Let_def js_get_update)
  show ?thesis
  proof (cases "clazz = ''_class''")
    case True
    with tc show ?thesis by (simp add: t simplifyClass_class)
  next
    case False
    with tc show ?thesis by (simp add: t js_get_simplifyClass_other)
  qed
qed

text \<open>C10 at work: a query on the mixin \<^verbatim>\<open>M\<close>, whose base class is \<^verbatim>\<open>C\<close>.\<close>

theorem translateQuery_mixin_exists_witness:
  "translateQuery example_core example_hierarchy ''M'' [] =
     Inr [(''_class'', JObj [(''$in'', JArr [JStr ''C'', JStr ''D'', JStr ''M''])]),
          (''M'', JObj [(''$exists'', JBool True)])]
   \<and> getBaseClass example_hierarchy ''M'' \<noteq> class_Doc example_core
   \<and> getBaseClass example_hierarchy ''M'' \<noteq> ''M''
   \<and> js_get [(''_class'', JObj [(''$in'', JArr [JStr ''C'', JStr ''D'', JStr ''M''])]),
              (''M'', JObj [(''$exists'', JBool True)])] ''M'' = JObj [(''$exists'', JBool True)]"
proof -
  have h1: "translateQuery example_core example_hierarchy ''M'' [] =
     Inr [(''_class'', JObj [(''$in'', JArr [JStr ''C'', JStr ''D'', JStr ''M''])]),
          (''M'', JObj [(''$exists'', JBool True)])]"
    by code_simp
  have h2: "getBaseClass example_hierarchy ''M'' \<noteq> class_Doc example_core"
    by code_simp
  have h3: "getBaseClass example_hierarchy ''M'' \<noteq> ''M''"
    by code_simp
  from translateQuery_mixin_exists [OF h1 h2 h3] h1 h2 h3 show ?thesis by simp
qed

section \<open>Properties of the lookup resolver\<close>

text \<open>
  C8. A forward lookup whose target class is stored in the backend: \<open>arr\<close> is the
  list of related documents the join left under \<open>fullKey\<close>, and the
  \<^verbatim>\<open>$lookup\<close> namespace of the target object is absent or an object \<open>l0\<close>
  without the lookup key. After \<^verbatim>\<open>fillLookup\<close> the namespace is an object that
  holds, under the lookup key, the document itself when one matched and the list
  when two or more matched, and that has no such key when none matched; its
  other keys and the other fields of the target object are as before.
\<close>

theorem fillLookup_collapse:
  assumes "getDomain h cl \<noteq> DOMAIN_MODEL c"
    and "js_get object fullKey = JArr arr"
    and "(js_get targetObject ''$lookup'' = JUndef \<and> l0 = []) \<or> js_get targetObject ''$lookup'' = JObj l0"
    and "map_of l0 key = None"
  shows "\<exists>t l. fillLookup c h modelFindAll cl object key fullKey targetObject = Inr t
           \<and> js_get t ''$lookup'' = JObj l
           \<and> map_of l key = (case arr of [] \<Rightarrow> None | [x] \<Rightarrow> Some x | x # y # zs \<Rightarrow> Some (JArr arr))
           \<and> (\<forall>k. k \<noteq> key \<longrightarrow> map_of l k = map_of l0 k)
           \<and> (\<forall>k. k \<noteq> ''$lookup'' \<longrightarrow> map_of t k = map_of targetObject k)"
proof -
  define target1 where "target1 =
    (if js_get targetObject ''$lookup'' = JUndef
     then AList.update ''$lookup'' (JObj []) targetObject else targetObject)"
  have t1: "js_get target1 ''$lookup'' = JObj l0"
    using assms(3) by (auto simp: target1_def js_get_update)
  have t1o: "map_of target1 k = map_of targetObject k" if "k \<noteq> ''$lookup''" for k
    using that by (simp add: target1_def update_conv')
  have set: "setLookup target1 key v =
      Inr (AList.update ''$lookup'' (JObj (AList.update key v l0)) target1)" for v
    by (simp add: setLookup_def t1)
  have run: "fillLookup c h modelFindAll cl object key fullKey targetObject =
      (if length arr = 1 then setLookup target1 key (arr ! 0)
       else if length arr > 1 then setLookup target1 key (JArr arr)
       else Inr target1)"
    using assms(1,2) by (simp add: fillLookup_def target1_def Let_def)
  show ?thesis
  proof (cases arr)
    case Nil
    with run have "fillLookup c h modelFindAll cl object key fullKey targetObject = Inr target1"
      by simp
    with t1 t1o assms(4) Nil show ?thesis by auto
  next
    case (Cons x ys)
    show ?thesis
    proof (cases ys)
      case Nil
      with Cons run set have "fillLookup c h modelFindAll cl object key fullKey targetObject =
          Inr (AList.update ''$lookup'' (JObj (AList.update key x l0)) target1)"
        by simp
      with t1o Cons Nil show ?thesis
        by (auto simp: js_get_update update_conv')
    next
      case (Cons y zs)
      with \<open>arr = x # ys\<close> run set
      have "fillLookup c h modelFindAll cl object key fullKey targetObject =
          Inr (AList.update ''$lookup'' (JObj (AList.update key (JArr arr) l0)) target1)"
        by simp
      with t1o Cons \<open>arr = x # ys\<close> show ?thesis
        by (auto simp: js_get_update update_conv')
    qed
  qed
qed

text \<open>C8 at work: one related document was joined under \<^verbatim>\<open>assignee_lookup\<close>, and
  the document gets it as a single object under \<^verbatim>\<open>$lookup.assignee\<close>.\<close>

theorem fillLookup_collapse_witness:
  "getDomain example_hierarchy ''C'' \<noteq> DOMAIN_MODEL example_core
   \<and> fillLookup example_core example_hierarchy (\<lambda>cl q. []) ''C''
        [(''_id'', JStr ''d''), (''assignee_lookup'', JArr [JObj [(''_id'', JStr ''p'')]])]
        ''assignee'' ''assignee_lookup''
        [(''_id'', JStr ''d''), (''assignee_lookup'', JArr [JObj [(''_id'', JStr ''p'')]])]
      = Inr [(''_id'', JStr ''d''), (''assignee_lookup'', JArr [JObj [(''_id'', JStr ''p'')]]),
             (''$lookup'', JObj [(''assignee'', JObj [(''_id'', JStr ''p'')])])]"
proof -
  let ?doc = "[(''_id'', JStr ''d''), (''assignee_lookup'', JArr [JObj [(''_id'', JStr ''p'')]])]"
  have h1: "getDomain example_hierarchy ''C'' \<noteq> DOMAIN_MODEL example_core" by code_simp
  have h2: "js_get ?doc ''assignee_lookup'' = JArr [JObj [(''_id'', JStr ''p'')]]" by simp
  have h3: "(js_get ?doc ''$lookup'' = JUndef \<and> ([] :: obj) = []) \<or> js_get ?doc ''$lookup'' = JObj []"
    by simp
  have h4: "map_of ([] :: obj) ''assignee'' = None" by simp
  from fillLookup_collapse [OF h1 h2 h3 h4, of "\<lambda>cl q. []"]
  obtain t l where r: "fillLookup example_core example_hierarchy (\<lambda>cl q. []) ''C'' ?doc
        ''assignee'' ''assignee_lookup'' ?doc = Inr t"
    and "map_of l ''assignee'' = Some (JObj [(''_id'', JStr ''p'')])"
    by auto
  have "fillLookup example_core example_hierarchy (\<lambda>cl q. []) ''C'' ?doc
        ''assignee'' ''assignee_lookup'' ?doc =
      Inr [(''_id'', JStr ''d''), (''assignee_lookup'', JArr [JObj [(''_id'', JStr ''p'')]]),
           (''$lookup'', JObj [(''assignee'', JObj [(''_id'', JStr ''p'')])])]"
    by code_simp
  with r have "t = [(''_id'', JStr ''d''), (''assignee_lookup'', JArr [JObj [(''_id'', JStr ''p'')]]),
           (''$lookup'', JObj [(''assignee'', JObj [(''_id'', JStr ''p'')])])]"
    by simp
  with r h1 show ?thesis by simp
qed

section \<open>Properties of the sort planner\<close>







section \<open>Properties of the transaction bulk compiler\<close>

lemma spread_snoc: "spread t (s @ [kv]) = AList.update (fst kv) (snd kv) (spread t s)"
  by (simp add: spread_def)

lemma nullsHash_spread: "nullsHash (spread t (s @ [hashNull]))"
  by (simp add: spread_snoc nullsHash_def hashNull_def update_conv')

lemma nullsHash_modifyOp: "nullsHash (modifyOp t @ [hashNull])"
  by (simp add: nullsHash_def modifyOp_def hashNull_def)

lemma distinct_spread: "distinct (map fst t) \<Longrightarrow> distinct (map fst (spread t s))"
  unfolding spread_def by (induction s arbitrary: t) (auto simp: distinct_update)

lemma distinct_copyObj: "distinct (map fst (copyObj ob))"
  by (simp add: copyObj_def distinct_spread)

lemma map_of_spread: "map_of (spread t s) = map_of t ++ map_of (rev s)"
  unfolding spread_def
proof (induction s arbitrary: t)
  case Nil
  then show ?case by simp
next
  case (Cons x s)
  have "map_of (AList.update (fst x) (snd x) t) = map_of t ++ map_of [x]"
    by (cases x) (simp add: update_conv')
  moreover have "map_of (rev (x # s)) = map_of [x] ++ map_of (rev s)"
    by (simp only: rev.simps map_of_append)
  ultimately show ?case
    by (simp only: foldl_Cons Cons.IH map_add_assoc)
qed

lemma map_of_rev_distinct: "distinct (map fst s) \<Longrightarrow> map_of (rev s) = map_of s"
proof (induction s)
  case Nil
  then show ?case by simp
next
  case (Cons x s)
  obtain k v where x: "x = (k, v)" by (cases x)
  from Cons.prems x have "k \<notin> dom (map_of s)"
    by (auto simp: dom_map_of_conv_image_fst)
  then have "map_of [(k, v)] ++ map_of s = (map_of s)(k \<mapsto> v)"
    by (auto simp: map_add_def fun_eq_iff domIff split: option.splits)
  with Cons x show ?case by simp
qed

lemma nullsHash_merged:
  "nullsHash (spread upd (spread (copyObj ob) (s @ [hashNull])))"
proof -
  let ?e = "spread (copyObj ob) (s @ [hashNull])"
  have "distinct (map fst ?e)" by (simp add: distinct_spread distinct_copyObj)
  then have "map_of (rev ?e) = map_of ?e" by (rule map_of_rev_distinct)
  moreover have "map_of ?e ''%hash%'' = Some JNull"
    using nullsHash_spread [of "copyObj ob" s] by (simp add: nullsHash_def)
  ultimately show ?thesis
    by (simp add: nullsHash_def map_of_spread map_add_def)
qed

lemma nullsHash_translateDoc: "nullsHash (translateDoc doc)"
  by (simp add: nullsHash_def translateDoc_def update_conv')

lemma list_all_update:
  "list_all (\<lambda>it. P (snd it)) m \<Longrightarrow> P v \<Longrightarrow> list_all (\<lambda>it. P (snd it)) (AList.update k v m)"
  by (induction m) auto

lemma updateNullsHash_set:
  "nullsHash st \<Longrightarrow> updateNullsHash (AList.update ''$set'' (JObj st) upd)"
  by (simp add: updateNullsHash_def js_get_update)

text \<open>The sibling paths: a created document is inserted with a null hash, and
  whatever an update transaction compiles to nulls the hash.\<close>

lemma txCreateDoc_nullsHash:
  "bulkNullsHash bulk \<Longrightarrow> bulkNullsHash (txCreateDoc c bulk t attrs)"
  by (simp add: bulkNullsHash_def txCreateDoc_def nullsHash_translateDoc)

lemma txUpdateDoc_nullsHash:
  assumes "bulkNullsHash bulk" and "txUpdateDoc c h bulk t operations retrieve = Inr b"
  shows "bulkNullsHash b"
proof (cases "isOperator c operations")
  case False
  have "nullsHash (spread (case map_of (update bulk) (objectId t) of None \<Rightarrow> [] | Some upd \<Rightarrow> upd)
                     (spread (copyObj operations) (modifyOp t @ [hashNull])))"
    by (rule nullsHash_merged)
  with assms False show ?thesis
    by (auto simp: txUpdateDoc_def Let_def bulkNullsHash_def mergeUpdate_def list_all_update
        split: if_splits)
next
  case True
  have a: "updateNullsHash [(''$set'', JObj [hashNull]), p]" for p
    by (simp add: updateNullsHash_def nullsHash_def hashNull_def)
  have b: "updateNullsHash [(''$set'', JObj (modifyOp t @ [hashNull])), p]" for p
    by (simp add: updateNullsHash_def nullsHash_modifyOp)
  have c: "updateNullsHash [(''$set'', JObj (modifyOp t @ [hashNull]))]"
    by (simp add: updateNullsHash_def nullsHash_modifyOp)
  have d: "updateNullsHash [(''$set'', JObj (spread s [hashNull]))]" for s
    using nullsHash_spread [of s "[]"] by (simp add: updateNullsHash_def)
  have e: "updateNullsHash (AList.update ''$set'' (JObj (modifyOp t @ [hashNull])) (copyObj operations))"
    by (simp add: updateNullsHash_set nullsHash_modifyOp)
  from assms True show ?thesis
    by (auto simp: txUpdateDoc_def Let_def bulkNullsHash_def pushBulk_def a b c d e
        split: if_splits sum.splits prod.splits)
qed

text \<open>
  C1, on the code: a mixin transaction compiles to writes that do not touch
  \<^verbatim>\<open>%hash%\<close>. The first transaction applies the mixin \<^verbatim>\<open>M\<close> with the attribute
  \<^verbatim>\<open>a\<close>, the second with the operator \<^verbatim>\<open>$push\<close>; neither the merged field set
  nor the \<^verbatim>\<open>$set\<close> of the update carries \<^verbatim>\<open>'%hash%': null\<close>.
\<close>

theorem txMixin_leaves_hash:
  "txDomain example_core example_hierarchy [TxMixin (example_tx ''x'') ''M'' [(''a'', JNum 1)]] =
     Inr [BulkWrite [UpdateOne [(''_id'', JStr ''x'')]
            [(''$set'', JObj [(''M.a'', JNum 1), (''modifiedBy'', JStr ''u''), (''modifiedOn'', JNum 7)])]]]
   \<and> txDomain example_core example_hierarchy
        [TxMixin (example_tx ''x'') ''M'' [(''$push'', JObj [(''tags'', JStr ''t'')])]] =
     Inr [BulkWrite [UpdateOne [(''_id'', JStr ''x'')]
            [(''$push'', JObj [(''M.tags'', JStr ''t'')]),
             (''$set'', JObj [(''modifiedBy'', JStr ''u''), (''modifiedOn'', JNum 7)])]]]
   \<and> \<not> bulkNullsHash (compiledAlone example_core example_hierarchy
            (TxMixin (example_tx ''x'') ''M'' [(''a'', JNum 1)]))
   \<and> \<not> bulkNullsHash (compiledAlone example_core example_hierarchy
            (TxMixin (example_tx ''x'') ''M'' [(''$push'', JObj [(''tags'', JStr ''t'')])]))
   \<and> bulkNullsHash (compiledAlone example_core example_hierarchy
            (TxUpdateDoc (example_tx ''x'') [(''a'', JNum 1)] False))"
  by code_simp








section \<open>Properties of the bulk update with retry\<close>







end
